theory Spec2Isabelle
  imports Complex_Main "HOL-Library.AList"
begin

section \<open>Data model of \<open>app.py\<close>\<close>

text \<open>
  The service keeps two module-level globals: \<open>api\<close> (the brokerage session, \<open>None\<close>
  until a login creates one) and \<open>contract_cache\<close> (a dict). Everything else is the
  brokerage SDK, the operating system, Flask and the interpreter's own float arithmetic and
  string rendering; their answers are collected in the record \<open>env\<close>, so that every call
  of the source that can raise is a call of an \<open>env\<close> field returning \<open>exn + 'a\<close> (\<open>Inl\<close>
  is the raised exception).

  Logging is not modelled. A session object is a handle (its Python identity); what the
  SDK answers on a handle is part of \<open>env\<close>.
\<close>

text \<open>
  A raised exception with what it carries: the missing key for a \<open>KeyError\<close>, a
  description for the others. The text \<open>str(e)\<close> that the handlers put into a response is
  the interpreter's rendering of the exception (for a \<open>KeyError\<close> the \<open>repr\<close> of the key),
  the field \<open>str_exn\<close> of \<open>env\<close> below.
\<close>

datatype exn = KeyError string | IndexError string | AttributeError string | OtherError string

type_synonym handle = nat

text \<open>
  An instrument as the source reads it: \<open>hasattr(contract, 'code')\<close> and
  \<open>hasattr(contract, 'category')\<close> are the two optional fields; \<open>cid\<close> is the object's
  identity, so that two instruments with equal attributes are still two instruments.
\<close>

record contract =
  cid :: nat
  code :: "string option"
  category :: "string option"

text \<open>
  A snapshot quote: \<open>q.code\<close> is read unguarded by both endpoints; \<open>close\<close> and \<open>ts\<close> are
  guarded by \<open>hasattr\<close> in \<open>fetch_all\<close> (\<open>None\<close> is the absent attribute). An attribute
  that is present and holds Python's \<open>None\<close> is not told apart from an absent one: the
  two differ only in \<open>/quote\<close>, and the statements about \<open>/quote\<close> below take quotes whose
  \<open>close\<close> and \<open>ts\<close> hold values.
\<close>

record quote =
  q_code :: string
  close :: "rat option"
  ts :: "int option"

text \<open>
  The cache is one flat Python dict holding instruments under \<open>key\<close> and market labels
  under \<open>key + "_market"\<close>: its values are of two kinds. A dict keeps insertion order and
  an assignment to an existing key keeps the key's place, which is \<open>AList.update\<close>.
\<close>

datatype cache_val = Contract contract | Market string

type_synonym cache = "(string \<times> cache_val) list"

record state =
  api :: "handle option"
  contract_cache :: cache

record usage_status =
  bytes :: int
  limit_bytes :: int

text \<open>
  A contract directory offers iteration (\<open>list(container)\<close>) and lookup by code
  (\<open>c[code]\<close>, raising \<open>KeyError\<close> on a miss).
\<close>

record directory =
  items :: "contract list"
  getitem :: "string \<Rightarrow> exn + contract"

text \<open>
  \<open>api.Contracts\<close>: a venue is \<open>None\<close> when the attribute is \<open>None\<close> (for OES also when
  it is missing: \<open>getattr(..., "OES", None)\<close>).
\<close>

record contract_dirs =
  TSE :: "directory option"
  OTC :: "directory option"
  OES :: "directory option"
  Futures :: directory
  Options :: directory

datatype json =
  JNull | JBool bool | JNum rat | JStr string | JArr "json list" | JObj "(string \<times> json) list"

type_synonym accounts = "string list"

text \<open>
  The collaborators. \<open>snapshots h n batch\<close> is the answer of \<open>api.snapshots(batch)\<close> to
  the call for batch number \<open>n\<close> (counted from 0) of the request. \<open>times_0_8 n\<close> is what
  the interpreter gives for \<open>0.8 * n\<close> with an int \<open>n\<close>: the product in double
  precision, rounded as the machine rounds it, or an \<open>OverflowError\<close> when \<open>n\<close> does not
  fit a float. It is not the exact product (the two part from each other for large
  \<open>n\<close>), so it is a parameter like the other answers.
\<close>

record env =
  usage :: "handle \<Rightarrow> exn + usage_status"
  memory_info :: "exn + nat"
  Contracts :: "handle \<Rightarrow> exn + contract_dirs"
  snapshots :: "handle \<Rightarrow> nat \<Rightarrow> cache_val list \<Rightarrow> exn + quote list"
  path_exists :: "json \<Rightarrow> exn + bool"
  Shioaji :: "json \<Rightarrow> exn + handle"
  activate_ca :: "handle \<Rightarrow> json \<Rightarrow> json \<Rightarrow> json \<Rightarrow> exn + bool"
  api_login :: "handle \<Rightarrow> json \<Rightarrow> json \<Rightarrow> exn + accounts"
  fetch_contracts :: "handle \<Rightarrow> exn + unit"
  py_str :: "json \<Rightarrow> string"
  times_0_8 :: "int \<Rightarrow> exn + real"
  str_exn :: "exn \<Rightarrow> string"

text \<open>What the collaborators were asked to do, in order.\<close>

datatype venue = DirTSE | DirOTC | DirOES | DirFutures | DirOptions

datatype event =
  Usage | MemoryInfo | Access venue | Snapshots "cache_val list" | Sleep nat

text \<open>One record of the \<open>quotes\<close> list of \<open>/fetch_all\<close>.\<close>

record quote_record =
  r_code :: string
  r_market :: cache_val
  r_price :: "rat option"
  r_timestamp :: "int option"

text \<open>
  The response envelope \<open>{"statusCode": n, "body": json.dumps(...)}\<close>; the body is kept
  as the dict that is serialised.
\<close>

datatype body =
  Error string
| LoginSuccessful accounts
| QuotesFetched "quote_record list"
| QuoteFetched string rat int string string

record response =
  statusCode :: nat
  body :: body

definition resp :: "nat \<Rightarrow> body \<Rightarrow> response" where
  "resp n b = \<lparr>statusCode = n, body = b\<rparr>"

section \<open>\<open>/fetch_all\<close>\<close>

text \<open>
  \<open>usage.bytes > 0.8 * usage.limit_bytes\<close> (line 104): the product is the interpreter's
  double-precision one, and the comparison of the int \<open>usage.bytes\<close> with that float is
  exact. \<open>mem_info.rss > 12 * 1024**3\<close> (line 112) is integer arithmetic.
\<close>

definition traffic_gate :: "env \<Rightarrow> usage_status \<Rightarrow> exn + bool" where
  "traffic_gate e u =
     (case times_0_8 e (limit_bytes u) of
        Inl x \<Rightarrow> Inl x
      | Inr product \<Rightarrow> Inr (real_of_int (bytes u) > product))"

definition memory_gate :: "nat \<Rightarrow> bool" where
  "memory_gate rss \<longleftrightarrow> rss > 12 * 1024 ^ 3"

text \<open>The body of the loop over one stock venue (lines 128 to 137).\<close>

definition cache_stock :: "string \<Rightarrow> cache \<Rightarrow> contract \<Rightarrow> cache" where
  "cache_stock market c contract =
     (case code contract of
        None \<Rightarrow> c
      | Some cd \<Rightarrow>
          let cache_key = ''stock_'' @ cd;
              c1 = AList.update cache_key (Contract contract) c;
              c2 = AList.update (cache_key @ ''_market'') (Market market) c1
          in if category contract = Some ''Warrant''
             then let warrant_key = ''warrant_'' @ cd;
                      c3 = AList.update warrant_key (Contract contract) c2
                  in AList.update (warrant_key @ ''_market'') (Market (market @ ''_Warrant'')) c3
             else c2)"

text \<open>The bodies of the loops over futures and options (lines 139 to 149).\<close>

definition cache_other :: "string \<Rightarrow> string \<Rightarrow> cache \<Rightarrow> contract \<Rightarrow> cache" where
  "cache_other prefix market c contract =
     (case code contract of
        None \<Rightarrow> c
      | Some cd \<Rightarrow>
          let cache_key = prefix @ cd;
              c1 = AList.update cache_key (Contract contract) c
          in AList.update (cache_key @ ''_market'') (Market market) c1)"

definition cache_venue :: "cache \<Rightarrow> string \<times> directory option \<Rightarrow> cache" where
  "cache_venue c mc =
     (case snd mc of
        None \<Rightarrow> c
      | Some container \<Rightarrow> foldl (cache_stock (fst mc)) c (items container))"

definition populate :: "contract_dirs \<Rightarrow> cache \<Rightarrow> cache" where
  "populate dirs c =
     (let c1 = foldl cache_venue c
                 [(''TSE'', TSE dirs), (''OTC'', OTC dirs), (''OES'', OES dirs)];
          c2 = foldl (cache_other ''futures_'' ''Futures'') c1 (items (Futures dirs))
      in foldl (cache_other ''options_'' ''Options'') c2 (items (Options dirs)))"

text \<open>
  \<open>if not contract_cache:\<close> and the population under it. A failure while reading
  \<open>api.Contracts\<close> is raised at the first directory read, before any entry is written;
  a read that fails between two venues, which would leave the entries written so far, is
  not modelled, and the statements below are about populations that run to their end or
  about requests that find the cache filled.
\<close>

definition population :: "env \<Rightarrow> handle \<Rightarrow> cache \<Rightarrow> (exn + unit) \<times> cache \<times> event list" where
  "population e h c =
     (if c \<noteq> [] then (Inr (), c, [])
      else case Contracts e h of
             Inl x \<Rightarrow> (Inl x, c, [Access DirTSE])
           | Inr dirs \<Rightarrow>
               (Inr (), populate dirs c,
                [Access DirTSE, Access DirOTC, Access DirOES, Access DirFutures,
                 Access DirOptions]))"

definition endswith :: "string \<Rightarrow> string \<Rightarrow> bool" where
  "endswith k suf \<longleftrightarrow> length suf \<le> length k \<and> drop (length k - length suf) k = suf"

text \<open>Lines 153 and 154: the two comprehensions over \<open>contract_cache.items()\<close>.\<close>

definition collect_contracts :: "cache \<Rightarrow> cache_val list" where
  "collect_contracts c = map snd (filter (\<lambda>kv. \<not> endswith (fst kv) ''_market'') c)"

fun lookup_all :: "cache \<Rightarrow> string list \<Rightarrow> exn + cache_val list" where
  "lookup_all c [] = Inr []"
| "lookup_all c (k # ks) =
     (case map_of c (k @ ''_market'') of
        None \<Rightarrow> Inl (KeyError (k @ ''_market''))
      | Some m \<Rightarrow> (case lookup_all c ks of Inl x \<Rightarrow> Inl x | Inr ms \<Rightarrow> Inr (m # ms)))"

definition collect_markets :: "cache \<Rightarrow> exn + cache_val list" where
  "collect_markets c =
     lookup_all c (map fst (filter (\<lambda>kv. \<not> endswith (fst kv) ''_market'') c))"

definition batch_size :: nat where
  "batch_size = 200"

text \<open>
  The batch loop (lines 159 to 168): \<open>for i in range(0, len(contracts), batch_size)\<close>.
  A raised snapshot call takes the \<open>continue\<close> and so passes by the \<open>time.sleep(1)\<close>.
\<close>

function batch_query ::
  "env \<Rightarrow> handle \<Rightarrow> cache_val list \<Rightarrow> nat \<Rightarrow> quote list \<Rightarrow> event list
     \<Rightarrow> quote list \<times> event list" where
  "batch_query e h contracts i quotes tr =
     (if i < length contracts then
        let batch = take batch_size (drop i contracts) in
        (case snapshots e h (i div batch_size) batch of
           Inr batch_quotes \<Rightarrow>
             batch_query e h contracts (i + batch_size) (quotes @ batch_quotes)
               (tr @ [Snapshots batch, Sleep 1])
         | Inl x \<Rightarrow>
             batch_query e h contracts (i + batch_size) quotes (tr @ [Snapshots batch]))
      else (quotes, tr))"
  by pat_completeness auto
termination
  by (relation "measure (\<lambda>(e, h, contracts, i, quotes, tr). length contracts - i)")
     (auto simp: batch_size_def)

declare batch_query.simps [simp del]

text \<open>
  The result comprehension (lines 171 to 178): \<open>markets[i]\<close> for \<open>i, q in
  enumerate(quotes)\<close>, an \<open>IndexError\<close> when there are more quotes than labels.
\<close>

fun format_quotes :: "cache_val list \<Rightarrow> nat \<Rightarrow> quote list \<Rightarrow> exn + quote_record list" where
  "format_quotes markets i [] = Inr []"
| "format_quotes markets i (q # qs) =
     (if i < length markets then
        (case format_quotes markets (Suc i) qs of
           Inl x \<Rightarrow> Inl x
         | Inr rs \<Rightarrow>
             Inr (\<lparr>r_code = q_code q, r_market = markets ! i, r_price = close q,
                   r_timestamp = ts q\<rparr> # rs))
      else Inl (IndexError ''list index out of range''))"

text \<open>The \<open>try\<close> block of \<open>fetch_all\<close>; the cache and the events survive a raise.\<close>

definition fetch_all_try :: "env \<Rightarrow> state \<Rightarrow> (exn + response) \<times> cache \<times> event list" where
  "fetch_all_try e s =
     (let c = contract_cache s in
      case api s of
        None \<Rightarrow> (Inr (resp 500 (Error ''Shioaji API not initialized'')), c, [])
      | Some h \<Rightarrow>
         (case usage e h of
            Inl x \<Rightarrow> (Inl x, c, [Usage])
          | Inr u \<Rightarrow>
            (case traffic_gate e u of
               Inl x \<Rightarrow> (Inl x, c, [Usage])
             | Inr True \<Rightarrow>
                 (Inr (resp 429 (Error ''Approaching traffic limit'')), c, [Usage])
             | Inr False \<Rightarrow>
              (case memory_info e of
                 Inl x \<Rightarrow> (Inl x, c, [Usage, MemoryInfo])
               | Inr rss \<Rightarrow>
                  if memory_gate rss
                  then (Inr (resp 429 (Error ''High memory usage'')), c, [Usage, MemoryInfo])
                  else
                   (case population e h c of
                      (Inl x, c', tr) \<Rightarrow> (Inl x, c', [Usage, MemoryInfo] @ tr)
                    | (Inr u, c', tr) \<Rightarrow>
                       (case collect_markets c' of
                          Inl x \<Rightarrow> (Inl x, c', [Usage, MemoryInfo] @ tr)
                        | Inr markets \<Rightarrow>
                           (case batch_query e h (collect_contracts c') 0 []
                                   ([Usage, MemoryInfo] @ tr) of
                              (quotes, tr') \<Rightarrow>
                               (case format_quotes markets 0 quotes of
                                  Inl x \<Rightarrow> (Inl x, c', tr')
                                | Inr result \<Rightarrow>
                                   (Inr (resp 200 (QuotesFetched result)), c', tr')))))))))"

text \<open>The endpoint: response, the globals afterwards, and the collaborator calls made.\<close>

definition fetch_all :: "env \<Rightarrow> state \<Rightarrow> response \<times> state \<times> event list" where
  "fetch_all e s =
     (case fetch_all_try e s of
        (Inr r, c, tr) \<Rightarrow> (r, s\<lparr>contract_cache := c\<rparr>, tr)
      | (Inl x, c, tr) \<Rightarrow>
          (resp 500 (Error (''Error in fetch_all: '' @ str_exn e x)),
           s\<lparr>contract_cache := c\<rparr>, tr))"

definition is_access :: "event \<Rightarrow> bool" where
  "is_access ev = (case ev of Access v \<Rightarrow> True | _ \<Rightarrow> False)"

definition is_snapshot :: "event \<Rightarrow> bool" where
  "is_snapshot ev = (case ev of Snapshots b \<Rightarrow> True | _ \<Rightarrow> False)"

section \<open>\<open>/login\<close>\<close>

text \<open>Python truthiness of a parsed JSON value (\<open>if not data\<close>, \<open>if not api_key\<close>).\<close>

fun truthy :: "json \<Rightarrow> bool" where
  "truthy JNull = False"
| "truthy (JBool b) = b"
| "truthy (JNum r) = (r \<noteq> 0)"
| "truthy (JStr s) = (s \<noteq> [])"
| "truthy (JArr xs) = (xs \<noteq> [])"
| "truthy (JObj kvs) = (kvs \<noteq> [])"

text \<open>\<open>data.get(k, default)\<close>; \<open>data.get(k)\<close> is \<open>dict_get d k JNull\<close>.\<close>

definition dict_get :: "(string \<times> json) list \<Rightarrow> string \<Rightarrow> json \<Rightarrow> json" where
  "dict_get d k dflt = (case map_of d k of None \<Rightarrow> dflt | Some v \<Rightarrow> v)"

fun join :: "string \<Rightarrow> string list \<Rightarrow> string" where
  "join sep [] = []"
| "join sep [x] = x"
| "join sep (x # y # ys) = x @ sep @ join sep (y # ys)"

text \<open>Lines 48 to 57.\<close>

definition missing_params :: "json \<Rightarrow> json \<Rightarrow> json \<Rightarrow> json \<Rightarrow> json \<Rightarrow> string list" where
  "missing_params api_key secret_key simulation_mode ca_password person_id =
     (if \<not> truthy api_key then [''api_key''] else []) @
     (if \<not> truthy secret_key then [''secret_key''] else []) @
     (if \<not> truthy simulation_mode
      then (if \<not> truthy ca_password then [''ca_password''] else []) @
           (if \<not> truthy person_id then [''person_id''] else [])
      else [])"

text \<open>
  Lines 67 to 88, once validation has passed. The assignment to the global \<open>api\<close> is the
  first step; every later failure leaves it in place.
\<close>

definition initialize ::
  "env \<Rightarrow> state \<Rightarrow> json \<Rightarrow> json \<Rightarrow> json \<Rightarrow> json \<Rightarrow> json \<Rightarrow> json
     \<Rightarrow> (exn + response) \<times> state" where
  "initialize e s api_key secret_key ca_path ca_password person_id simulation_mode =
     (case Shioaji e simulation_mode of
        Inl x \<Rightarrow> (Inl x, s)
      | Inr h \<Rightarrow>
         let s1 = s\<lparr>api := Some h\<rparr>;
             activated =
               (if \<not> truthy simulation_mode
                then activate_ca e h ca_path ca_password person_id
                else Inr True)
         in (case activated of
               Inl x \<Rightarrow> (Inl x, s1)
             | Inr False \<Rightarrow> (Inr (resp 500 (Error ''Failed to activate CA'')), s1)
             | Inr True \<Rightarrow>
                (case api_login e h api_key secret_key of
                   Inl x \<Rightarrow> (Inl x, s1)
                 | Inr accounts \<Rightarrow>
                    (case fetch_contracts e h of
                       Inl x \<Rightarrow> (Inl x, s1)
                     | Inr u \<Rightarrow> (Inr (resp 200 (LoginSuccessful accounts)), s1)))))"

text \<open>
  The \<open>try\<close> block of \<open>login\<close>. \<open>request_json\<close> is what \<open>request.get_json()\<close> gave. A
  truthy body that is not an object has no \<open>get\<close>.
\<close>

definition login_try :: "env \<Rightarrow> exn + json \<Rightarrow> state \<Rightarrow> (exn + response) \<times> state" where
  "login_try e request_json s =
     (case request_json of
        Inl x \<Rightarrow> (Inl x, s)
      | Inr data \<Rightarrow>
         if \<not> truthy data then (Inr (resp 400 (Error ''Request body is empty'')), s)
         else
          (case data of
             JObj d \<Rightarrow>
              let api_key = dict_get d ''api_key'' JNull;
                  secret_key = dict_get d ''secret_key'' JNull;
                  ca_path = dict_get d ''ca_path'' (JStr ''/app/Sinopac.pfx'');
                  ca_password = dict_get d ''ca_password'' JNull;
                  person_id = dict_get d ''person_id'' JNull;
                  simulation_mode = dict_get d ''simulation_mode'' (JBool False);
                  missing = missing_params api_key secret_key simulation_mode ca_password
                              person_id
              in if missing \<noteq> []
                 then (Inr (resp 400 (Error (''Missing parameters: '' @ join '', '' missing))),
                       s)
                 else
                  (case (if \<not> truthy simulation_mode then path_exists e ca_path
                         else Inr True) of
                     Inl x \<Rightarrow> (Inl x, s)
                   | Inr False \<Rightarrow>
                       (Inr (resp 500 (Error (''CA file not found at '' @ py_str e ca_path))),
                        s)
                   | Inr True \<Rightarrow>
                       initialize e s api_key secret_key ca_path ca_password person_id
                         simulation_mode)
           | _ \<Rightarrow> (Inl (AttributeError ''object has no attribute get''), s)))"

definition login :: "env \<Rightarrow> exn + json \<Rightarrow> state \<Rightarrow> response \<times> state" where
  "login e request_json s =
     (case login_try e request_json s of
        (Inr r, s') \<Rightarrow> (r, s')
      | (Inl x, s') \<Rightarrow> (resp 500 (Error (''Error in login: '' @ str_exn e x)), s'))"

section \<open>\<open>/quote\<close>\<close>

text \<open>
  The probe loop of lines 208 to 216: a venue that is \<open>None\<close> is passed over, a
  \<open>KeyError\<close> moves on to the next venue, any other exception leaves the loop.
\<close>

fun probe :: "string \<Rightarrow> (string \<times> directory option) list \<Rightarrow> exn + (contract \<times> string) option" where
  "probe cd [] = Inr None"
| "probe cd ((m, None) # rest) = probe cd rest"
| "probe cd ((m, Some c) # rest) =
     (case getitem c cd of
        Inr contract \<Rightarrow> Inr (Some (contract, m))
      | Inl (KeyError k) \<Rightarrow> probe cd rest
      | Inl x \<Rightarrow> Inl x)"

text \<open>
  Lines 230 to 245. \<open>quote.close\<close> and \<open>quote.ts\<close> are read unguarded here, so an absent
  attribute raises.
\<close>

definition answer ::
  "env \<Rightarrow> handle \<Rightarrow> string \<Rightarrow> string \<Rightarrow> (contract \<times> string) option \<Rightarrow> exn + response" where
  "answer e h cd qtype found =
     (case found of
        None \<Rightarrow> Inr (resp 500 (Error (''Contract not found for code='' @ cd)))
      | Some (contract, market) \<Rightarrow>
         (case snapshots e h 0 [Contract contract] of
            Inl x \<Rightarrow> Inl x
          | Inr [] \<Rightarrow> Inl (IndexError ''list index out of range'')
          | Inr (q # qs) \<Rightarrow>
             (case (close q, ts q) of
                (Some p, Some t) \<Rightarrow> Inr (resp 200 (QuoteFetched (q_code q) p t market qtype))
              | _ \<Rightarrow> Inl (AttributeError ''object has no attribute''))))"

text \<open>
  The \<open>try\<close> block of \<open>quote\<close>; \<open>code_arg\<close> and \<open>type_arg\<close> are the query parameters
  (\<open>None\<close> when not supplied). An instrument object is truthy.
\<close>

definition quote_try :: "env \<Rightarrow> state \<Rightarrow> string option \<Rightarrow> string option \<Rightarrow> exn + response" where
  "quote_try e s code_arg type_arg =
     (let qtype = (case type_arg of None \<Rightarrow> ''stock'' | Some t \<Rightarrow> t) in
      case code_arg of
        None \<Rightarrow> Inr (resp 400 (Error ''Missing parameter: code''))
      | Some cd \<Rightarrow>
         if cd = [] then Inr (resp 400 (Error ''Missing parameter: code''))
         else
          (case api s of
             None \<Rightarrow> Inr (resp 500 (Error ''Shioaji API not initialized''))
           | Some h \<Rightarrow>
              if qtype = ''stock'' then
                (case Contracts e h of
                   Inl x \<Rightarrow> Inl x
                 | Inr dirs \<Rightarrow>
                    (case probe cd [(''TSE'', TSE dirs), (''OTC'', OTC dirs), (''OES'', OES dirs)] of
                       Inl x \<Rightarrow> Inl x
                     | Inr None \<Rightarrow> answer e h cd qtype None
                     | Inr (Some (contract, market)) \<Rightarrow>
                         answer e h cd qtype
                           (Some (contract,
                                  if category contract = Some ''Warrant''
                                  then market @ ''_Warrant'' else market))))
              else if qtype = ''futures'' then
                (case Contracts e h of
                   Inl x \<Rightarrow> Inl x
                 | Inr dirs \<Rightarrow>
                    (case getitem (Futures dirs) cd of
                       Inl x \<Rightarrow> Inl x
                     | Inr contract \<Rightarrow> answer e h cd qtype (Some (contract, ''Futures''))))
              else if qtype = ''options'' then
                (case Contracts e h of
                   Inl x \<Rightarrow> Inl x
                 | Inr dirs \<Rightarrow>
                    (case getitem (Options dirs) cd of
                       Inl x \<Rightarrow> Inl x
                     | Inr contract \<Rightarrow> answer e h cd qtype (Some (contract, ''Options''))))
              else Inr (resp 400 (Error (''Unsupported type: '' @ qtype)))))"

definition quote :: "env \<Rightarrow> state \<Rightarrow> string option \<Rightarrow> string option \<Rightarrow> response" where
  "quote e s code_arg type_arg =
     (case quote_try e s code_arg type_arg of
        Inr r \<Rightarrow> r
      | Inl x \<Rightarrow> resp 500 (Error (''Error in quote: '' @ str_exn e x)))"

section \<open>Notions used by the statements\<close>

text \<open>
  A code is absent from a venue when the venue is not there or its lookup raises
  \<open>KeyError\<close>.
\<close>

definition absent :: "directory option \<Rightarrow> string \<Rightarrow> bool" where
  "absent venue cd =
     (case venue of
        None \<Rightarrow> True
      | Some c \<Rightarrow> (case getitem c cd of Inl (KeyError k) \<Rightarrow> True | _ \<Rightarrow> False))"

definition not_initialized :: response where
  "not_initialized = resp 500 (Error ''Shioaji API not initialized'')"

text \<open>
  The stock instruments in the order the population meets them, each with its venue name,
  and the dict assignments the population makes, in order.
\<close>

definition venue_entries :: "string \<Rightarrow> directory option \<Rightarrow> (string \<times> contract) list" where
  "venue_entries market venue =
     (case venue of None \<Rightarrow> [] | Some container \<Rightarrow> map (Pair market) (items container))"

definition stock_entries :: "contract_dirs \<Rightarrow> (string \<times> contract) list" where
  "stock_entries dirs =
     venue_entries ''TSE'' (TSE dirs) @ venue_entries ''OTC'' (OTC dirs)
       @ venue_entries ''OES'' (OES dirs)"

definition stock_writes :: "string \<times> contract \<Rightarrow> (string \<times> cache_val) list" where
  "stock_writes mx =
     (case code (snd mx) of
        None \<Rightarrow> []
      | Some cd \<Rightarrow>
          [(''stock_'' @ cd, Contract (snd mx)), (''stock_'' @ cd @ ''_market'', Market (fst mx))] @
          (if category (snd mx) = Some ''Warrant''
           then [(''warrant_'' @ cd, Contract (snd mx)),
                 (''warrant_'' @ cd @ ''_market'', Market (fst mx @ ''_Warrant''))]
           else []))"

definition other_writes :: "string \<Rightarrow> string \<Rightarrow> contract \<Rightarrow> (string \<times> cache_val) list" where
  "other_writes prefix market x =
     (case code x of
        None \<Rightarrow> []
      | Some cd \<Rightarrow> [(prefix @ cd, Contract x), (prefix @ cd @ ''_market'', Market market)])"

definition all_writes :: "contract_dirs \<Rightarrow> (string \<times> cache_val) list" where
  "all_writes dirs =
     concat (map stock_writes (stock_entries dirs))
       @ concat (map (other_writes ''futures_'' ''Futures'') (items (Futures dirs)))
       @ concat (map (other_writes ''options_'' ''Options'') (items (Options dirs)))"

definition apply_writes :: "cache \<Rightarrow> (string \<times> cache_val) list \<Rightarrow> cache" where
  "apply_writes c ws = foldl (\<lambda>c kv. AList.update (fst kv) (snd kv) c) c ws"

definition record_of :: "cache_val \<Rightarrow> quote \<Rightarrow> quote_record" where
  "record_of m q = \<lparr>r_code = q_code q, r_market = m, r_price = close q, r_timestamp = ts q\<rparr>"

definition quotes_of :: "body \<Rightarrow> quote_record list" where
  "quotes_of b = (case b of QuotesFetched rs \<Rightarrow> rs | _ \<Rightarrow> [])"

text \<open>
  A cache in the shape the population leaves: each instrument entry followed by its label
  entry.
\<close>

definition cache_of :: "(string \<times> contract \<times> string) list \<Rightarrow> cache" where
  "cache_of es =
     concat (map (\<lambda>(k, x, m). [(k, Contract x), (k @ ''_market'', Market m)]) es)"

section \<open>Example sessions\<close>

definition stock :: "nat \<Rightarrow> string \<Rightarrow> contract" where
  "stock n cd = \<lparr>cid = n, code = Some cd, category = None\<rparr>"

definition warrant :: "nat \<Rightarrow> string \<Rightarrow> contract" where
  "warrant n cd = \<lparr>cid = n, code = Some cd, category = Some ''Warrant''\<rparr>"

definition dir_of :: "contract list \<Rightarrow> directory" where
  "dir_of xs =
     \<lparr>items = xs,
      getitem = (\<lambda>cd. case find (\<lambda>x. code x = Some cd) xs of
                           None \<Rightarrow> Inl (KeyError cd)
                         | Some x \<Rightarrow> Inr x)\<rparr>"

definition quote_of :: "cache_val \<Rightarrow> quote" where
  "quote_of v =
     \<lparr>q_code = (case v of
                   Contract x \<Rightarrow> (case code x of None \<Rightarrow> [] | Some cd \<Rightarrow> cd)
                 | Market m \<Rightarrow> m),
      close = Some 1, ts = Some 0\<rparr>"

definition dirs0 :: contract_dirs where
  "dirs0 =
     \<lparr>TSE = Some (dir_of [stock 1 ''2330'']), OTC = Some (dir_of [stock 2 ''6488'']),
      OES = None, Futures = dir_of [stock 3 ''TXF''], Options = dir_of []\<rparr>"

text \<open>
  The example quota limit is 100 throughout, where the double-precision product
  \<open>0.8 * 100\<close> is the float 80.0, the exact product.
\<close>

definition env0 :: env where
  "env0 =
     \<lparr>usage = (\<lambda>h. Inr \<lparr>bytes = 10, limit_bytes = 100\<rparr>),
      memory_info = Inr 1000,
      Contracts = (\<lambda>h. Inr dirs0),
      snapshots = (\<lambda>h n batch. Inr (map quote_of batch)),
      path_exists = (\<lambda>p. Inr True),
      Shioaji = (\<lambda>simulation. Inr 2),
      activate_ca = (\<lambda>h p pw pid. Inr True),
      api_login = (\<lambda>h k sk. Inr [''account'']),
      fetch_contracts = (\<lambda>h. Inr ()),
      py_str = (\<lambda>j. case j of JStr s \<Rightarrow> s | _ \<Rightarrow> []),
      times_0_8 = (\<lambda>n. Inr (0.8 * real_of_int n)),
      str_exn = (\<lambda>x. case x of
                        KeyError k \<Rightarrow> CHR 0x27 # k @ [CHR 0x27]
                      | IndexError m \<Rightarrow> m
                      | AttributeError m \<Rightarrow> m
                      | OtherError m \<Rightarrow> m)\<rparr>"

text \<open>The quota reading is at 0.81 of the limit.\<close>

definition env_quota :: env where
  "env_quota = env0\<lparr>usage := (\<lambda>h. Inr \<lparr>bytes = 81, limit_bytes = 100\<rparr>)\<rparr>"

text \<open>The second snapshot call of a request raises.\<close>

definition env_skip :: env where
  "env_skip =
     env0\<lparr>snapshots := (\<lambda>h n batch. if n = 1 then Inl (OtherError ''timeout'')
                                    else Inr (map quote_of batch))\<rparr>"

text \<open>Certificate activation is refused.\<close>

definition env_refuse :: env where
  "env_refuse = env0\<lparr>activate_ca := (\<lambda>h p pw pid. Inr False)\<rparr>"

definition credentials :: "(string \<times> json) list" where
  "credentials =
     [(''api_key'', JStr ''key''), (''secret_key'', JStr ''secret''),
      (''ca_password'', JStr ''password''), (''person_id'', JStr ''A123456789'')]"

definition dirs_warrant :: contract_dirs where
  "dirs_warrant =
     \<lparr>TSE = Some (dir_of [warrant 1 ''030001'', stock 2 ''2330'']),
      OTC = Some (dir_of [stock 3 ''6488'']), OES = None,
      Futures = dir_of [stock 4 ''TXF''], Options = dir_of []\<rparr>"

text \<open>A TSE directory in which one code is another code followed by \<open>_market\<close>.\<close>

definition dirs_collide :: contract_dirs where
  "dirs_collide =
     \<lparr>TSE = Some (dir_of [warrant 1 ''A'', stock 2 ''A_market'']),
      OTC = Some (dir_of []), OES = None, Futures = dir_of [], Options = dir_of []\<rparr>"

text \<open>Every snapshot call raises.\<close>

definition env_fail :: env where
  "env_fail = env0\<lparr>snapshots := (\<lambda>h n batch. Inl (OtherError ''timeout''))\<rparr>"

definition s_none :: state where
  "s_none = \<lparr>api = None, contract_cache = []\<rparr>"

definition s_warm :: state where
  "s_warm = \<lparr>api = Some 1, contract_cache = cache_of [(''stock_2330'', stock 1 ''2330'', ''TSE'')]\<rparr>"

definition unary_code :: "nat \<Rightarrow> string" where
  "unary_code i = replicate (Suc i) CHR ''1''"

definition tse_entries :: "nat \<Rightarrow> (string \<times> contract \<times> string) list" where
  "tse_entries n = map (\<lambda>i. (''stock_'' @ unary_code i, stock i (unary_code i), ''TSE'')) [0..<n]"


text \<open>The cache entries of 400 TSE stocks followed by one futures contract.\<close>

definition entries401 :: "(string \<times> contract \<times> string) list" where
  "entries401 = tse_entries 400 @ [(''futures_TXF'', stock 400 ''TXF'', ''Futures'')]"

text \<open>The directories that hold those instruments.\<close>

definition dirs401 :: contract_dirs where
  "dirs401 =
     \<lparr>TSE = Some (dir_of (map (\<lambda>i. stock i (unary_code i)) [0..<400])),
      OTC = Some (dir_of []), OES = None,
      Futures = dir_of [stock 400 ''TXF''], Options = dir_of []\<rparr>"

text \<open>A session on those directories whose second snapshot call raises.\<close>

definition env401 :: env where
  "env401 = env_skip\<lparr>Contracts := (\<lambda>h. Inr dirs401)\<rparr>"

definition s_cold :: state where
  "s_cold = \<lparr>api = Some 1, contract_cache = []\<rparr>"

section \<open>The resource guard and the population guard\<close>

lemma population_warm: "c \<noteq> [] \<Longrightarrow> population e h c = (Inr (), c, [])"
  by (simp add: population_def)

text \<open>
  C5. On an initialised session whose quota reading makes line 104's comparison true, or
  makes it false while the resident memory exceeds 12 GiB, \<open>/fetch_all\<close> answers 429,
  reads no contract directory, makes no snapshot call and leaves both globals as they
  were. Nothing is assumed about the cache, so the gates hold for a warm cache as for an
  empty one.
\<close>

theorem fetch_all_resource_guard:
  assumes "api s = Some h"
    and "usage e h = Inr u"
    and "traffic_gate e u = Inr True
         \<or> (traffic_gate e u = Inr False \<and> memory_info e = Inr rss \<and> memory_gate rss)"
  shows "statusCode (fst (fetch_all e s)) = 429
       \<and> fst (snd (fetch_all e s)) = s
       \<and> filter is_access (snd (snd (fetch_all e s))) = []
       \<and> filter is_snapshot (snd (snd (fetch_all e s))) = []"
  using assms(3)
proof (elim disjE conjE)
  assume "traffic_gate e u = Inr True"
  with assms(1,2) have "fetch_all e s = (resp 429 (Error ''Approaching traffic limit''), s, [Usage])"
    by (simp add: fetch_all_def fetch_all_try_def)
  then show ?thesis
    by (simp add: resp_def is_access_def is_snapshot_def)
next
  assume "traffic_gate e u = Inr False" "memory_info e = Inr rss" "memory_gate rss"
  with assms(1,2)
  have "fetch_all e s = (resp 429 (Error ''High memory usage''), s, [Usage, MemoryInfo])"
    by (simp add: fetch_all_def fetch_all_try_def)
  then show ?thesis
    by (simp add: resp_def is_access_def is_snapshot_def)
qed

theorem fetch_all_resource_guard_witness:
  "api s_warm = Some 1
   \<and> usage env_quota 1 = Inr \<lparr>bytes = 81, limit_bytes = 100\<rparr>
   \<and> traffic_gate env_quota \<lparr>bytes = 81, limit_bytes = 100\<rparr> = Inr True
   \<and> statusCode (fst (fetch_all env_quota s_warm)) = 429
   \<and> fst (snd (fetch_all env_quota s_warm)) = s_warm
   \<and> filter is_access (snd (snd (fetch_all env_quota s_warm))) = []
   \<and> filter is_snapshot (snd (snd (fetch_all env_quota s_warm))) = []"
proof -
  let ?u = "\<lparr>bytes = 81, limit_bytes = 100\<rparr>"
  have a: "api s_warm = Some 1"
    by (simp add: s_warm_def)
  have u: "usage env_quota 1 = Inr ?u"
    by (simp add: env_quota_def)
  have g: "traffic_gate env_quota ?u = Inr True"
    by (simp add: traffic_gate_def env_quota_def env0_def)
  from g have g': "traffic_gate env_quota ?u = Inr True
      \<or> (traffic_gate env_quota ?u = Inr False \<and> memory_info env_quota = Inr 0
          \<and> memory_gate 0)"
    by simp
  note w = fetch_all_resource_guard [OF a u g']
  from a u g w show ?thesis
    by blast
qed

lemma batch_query_access:
  "filter is_access (snd (batch_query e h cs i qs tr)) = filter is_access tr"
proof (induction e h cs i qs tr rule: batch_query.induct)
  case (1 e h contracts i quotes tr)
  show ?case
  proof (cases "i < length contracts")
    case False
    then show ?thesis by (simp add: batch_query.simps [of e h contracts i])
  next
    case True
    show ?thesis
    proof (cases "snapshots e h (i div batch_size) (take batch_size (drop i contracts))")
      case (Inl x)
      with True "1.IH"(1) [OF True refl Inl] show ?thesis
        by (simp add: is_access_def batch_query.simps [of e h contracts i])
    next
      case (Inr qs)
      with True "1.IH"(2) [OF True refl Inr] show ?thesis
        by (simp add: is_access_def batch_query.simps [of e h contracts i])
    qed
  qed
qed

text \<open>
  C6. A \<open>/fetch_all\<close> request that finds the cache non-empty reads no contract directory
  and leaves both globals, so every cache entry, as they were; this holds on every path of
  the request, the error paths included.
\<close>

theorem fetch_all_warm_cache:
  assumes "contract_cache s \<noteq> []"
  shows "filter is_access (snd (snd (fetch_all e s))) = []
       \<and> fst (snd (fetch_all e s)) = s"
proof -
  have tr: "filter is_access t = []"
    if "batch_query e h cs 0 [] [Usage, MemoryInfo] = (qs, t)" for h cs qs t
    using batch_query_access [of e h cs 0 "[]" "[Usage, MemoryInfo]"] that
    by (simp add: is_access_def)
  have "filter is_access (snd (snd (fetch_all_try e s))) = []
        \<and> fst (snd (fetch_all_try e s)) = contract_cache s"
    using assms tr
    by (auto simp: fetch_all_try_def population_warm is_access_def Let_def
             split: option.splits sum.splits prod.splits bool.splits)
  then show ?thesis
    by (auto simp: fetch_all_def split: prod.splits sum.splits)
qed

theorem fetch_all_warm_cache_witness:
  "contract_cache s_warm \<noteq> []
   \<and> filter is_access (snd (snd (fetch_all env0 s_warm))) = []
   \<and> fst (snd (fetch_all env0 s_warm)) = s_warm"
proof -
  have ne: "contract_cache s_warm \<noteq> []"
    by (simp add: s_warm_def cache_of_def)
  show ?thesis
    using ne fetch_all_warm_cache [OF ne, of env0] by simp
qed

section \<open>Batched fetch\<close>

lemma format_quotes_ok:
  "i + length qs \<le> length markets \<Longrightarrow>
   format_quotes markets i qs = Inr (map (\<lambda>(j, q). record_of (markets ! j) q) (enumerate i qs))"
  by (induction qs arbitrary: i) (simp_all add: record_of_def)



lemma batch_query_three:
  assumes len: "400 < length cs" "length cs \<le> 600"
    and 1: "snapshots e h 0 (take 200 cs) = Inr q1"
    and 2: "snapshots e h 1 (take 200 (drop 200 cs)) = Inl x"
    and 3: "snapshots e h 2 (take 200 (drop 400 cs)) = Inr q3"
  shows "batch_query e h cs 0 [] tr =
           (q1 @ q3,
            tr @ [Snapshots (take 200 cs), Sleep 1, Snapshots (take 200 (drop 200 cs)),
                  Snapshots (take 200 (drop 400 cs)), Sleep 1])"
proof -
  have stop: "batch_query e h cs 600 qs t = (qs, t)" for qs t
    using len by (simp add: batch_query.simps [of e h cs 600])
  have third: "batch_query e h cs 400 qs t =
                 (qs @ q3, t @ [Snapshots (take 200 (drop 400 cs)), Sleep 1])" for qs t
    using len 3 stop by (simp add: batch_query.simps [of e h cs 400] batch_size_def)
  have second: "batch_query e h cs 200 qs t =
                 (qs @ q3, t @ [Snapshots (take 200 (drop 200 cs)),
                                Snapshots (take 200 (drop 400 cs)), Sleep 1])" for qs t
    using len 2 third by (simp add: batch_query.simps [of e h cs 200] batch_size_def)
  have "cs \<noteq> []"
    using len by auto
  then show ?thesis
    using 1 second by (simp add: batch_query.simps [of e h cs 0] batch_size_def)
qed

lemma fetch_all_serving:
  assumes "api s = Some h" and "usage e h = Inr u" and "traffic_gate e u = Inr False"
    and "memory_info e = Inr rss" and "\<not> memory_gate rss"
    and "contract_cache s \<noteq> []"
    and "collect_markets (contract_cache s) = Inr markets"
    and "batch_query e h (collect_contracts (contract_cache s)) 0 [] [Usage, MemoryInfo]
           = (quotes, tr)"
    and "length quotes \<le> length markets"
  shows "fetch_all e s =
           (resp 200 (QuotesFetched
              (map (\<lambda>(j, q). record_of (markets ! j) q) (enumerate 0 quotes))), s, tr)"
  using assms
  by (simp add: fetch_all_def fetch_all_try_def population_warm format_quotes_ok)




lemma endswith_market: "endswith (k @ ''_market'') ''_market''"
  by (simp add: endswith_def)

lemma collect_contracts_cache_of:
  assumes "\<forall>(k, x, m) \<in> set es. \<not> endswith k ''_market''"
  shows "collect_contracts (cache_of es) = map (\<lambda>(k, x, m). Contract x) es"
  using assms
  by (induction es) (auto simp: collect_contracts_def cache_of_def endswith_market)

lemma map_of_cache_of:
  assumes "distinct (map fst es)"
    and "\<forall>(k, x, m) \<in> set es. \<not> endswith k ''_market''"
    and "(k, x, m) \<in> set es"
  shows "map_of (cache_of es) (k @ ''_market'') = Some (Market m)"
  using assms
proof (induction es)
  case Nil
  then show ?case by simp
next
  case (Cons a es)
  obtain k' x' m' where a: "a = (k', x', m')"
    by (cases a)
  have c: "cache_of (a # es) = (k', Contract x') # (k' @ ''_market'', Market m') # cache_of es"
    by (simp add: cache_of_def a)
  have nk: "k' \<noteq> k @ ''_market''"
    using Cons.prems(2) a endswith_market [of k] by auto
  show ?case
  proof (cases "k' = k")
    case True
    with Cons.prems(1,3) a have "m' = m"
      by (auto simp: image_iff)
    with True nk show ?thesis by (simp add: c)
  next
    case False
    with Cons.prems a have "map_of (cache_of es) (k @ ''_market'') = Some (Market m)"
      by (intro Cons.IH) auto
    with False nk show ?thesis by (simp add: c)
  qed
qed

lemma lookup_all_labels:
  assumes "\<forall>(k, x, m) \<in> set es. map_of c (k @ ''_market'') = Some (Market m)"
  shows "lookup_all c (map fst es) = Inr (map (\<lambda>(k, x, m). Market m) es)"
  using assms by (induction es) auto

lemma collect_markets_cache_of:
  assumes "distinct (map fst es)"
    and "\<forall>(k, x, m) \<in> set es. \<not> endswith k ''_market''"
  shows "collect_markets (cache_of es) = Inr (map (\<lambda>(k, x, m). Market m) es)"
proof -
  have keys: "map fst (filter (\<lambda>kv. \<not> endswith (fst kv) ''_market'') (cache_of es)) = map fst es"
    using assms(2)
    by (induction es) (auto simp: cache_of_def endswith_market)
  show ?thesis
    unfolding collect_markets_def keys
    using assms by (intro lookup_all_labels) (auto intro: map_of_cache_of)
qed



lemma endswith_last:
  assumes "endswith k suf" and "suf \<noteq> []"
  shows "last k = last suf"
proof -
  from assms(1) have "k = take (length k - length suf) k @ suf"
    by (simp add: endswith_def) (metis append_take_drop_id)
  with assms(2) show ?thesis
    by (metis last_appendR)
qed

lemma unary_key_not_market: "\<not> endswith (p @ unary_code i) ''_market''"
proof
  assume "endswith (p @ unary_code i) ''_market''"
  then have "last (p @ unary_code i) = last ''_market''"
    by (rule endswith_last) simp
  moreover have "unary_code i = replicate i CHR ''1'' @ [CHR ''1'']"
    by (simp add: unary_code_def replicate_append_same)
  ultimately show False
    by simp
qed

lemma tse_entries_no_market:
  "\<forall>(k, x, m) \<in> set (tse_entries n). \<not> endswith k ''_market''"
  using unary_key_not_market [of "''stock_''"] by (auto simp: tse_entries_def)

lemma tse_entries_distinct: "distinct (map fst (tse_entries n))"
proof -
  have "inj_on (\<lambda>i. ''stock_'' @ unary_code i) A" for A
    by (rule inj_onI) (simp add: unary_code_def)
  then show ?thesis
    by (simp add: tse_entries_def distinct_map comp_def)
qed





text \<open>
  C3. The claim asks for the pause after every chunk, a failed one included. The source
  does not pause there: on a cache of one instrument whose snapshot call raises, the
  request makes the snapshot call and no \<open>time.sleep\<close> call follows it (the
  \<open>continue\<close> of the \<open>except\<close> branch passes by the pause).
\<close>

theorem fetch_all_no_pause_after_failed_chunk:
  "fetch_all env_fail s_warm =
     (resp 200 (QuotesFetched []), s_warm,
      [Usage, MemoryInfo, Snapshots [Contract (stock 1 ''2330'')]])"
proof -
  have c: "collect_contracts (contract_cache s_warm) = [Contract (stock 1 ''2330'')]"
    by (simp add: s_warm_def cache_of_def collect_contracts_def endswith_def)
  have m: "collect_markets (contract_cache s_warm) = Inr [Market ''TSE'']"
    by (simp add: s_warm_def cache_of_def collect_markets_def endswith_def)
  have b: "batch_query env_fail 1 [Contract (stock 1 ''2330'')] 0 [] [Usage, MemoryInfo]
             = ([], [Usage, MemoryInfo, Snapshots [Contract (stock 1 ''2330'')]])"
    by (simp add: batch_query.simps [of _ _ _ 0] batch_query.simps [of _ _ _ 200]
          batch_size_def env_fail_def)
  have "fetch_all env_fail s_warm =
          (resp 200 (QuotesFetched
             (map (\<lambda>(j, q). record_of ([Market ''TSE''] ! j) q) (enumerate 0 []))),
           s_warm, [Usage, MemoryInfo, Snapshots [Contract (stock 1 ''2330'')]])"
  proof (rule fetch_all_serving [OF _ _ _ _ _ _ m])
    show "api s_warm = Some 1"
      by (simp add: s_warm_def)
    show "usage env_fail 1 = Inr \<lparr>bytes = 10, limit_bytes = 100\<rparr>"
      by (simp add: env_fail_def env0_def)
    show "traffic_gate env_fail \<lparr>bytes = 10, limit_bytes = 100\<rparr> = Inr False"
      by (simp add: traffic_gate_def env_fail_def env0_def)
    show "memory_info env_fail = Inr 1000"
      by (simp add: env_fail_def env0_def)
    show "\<not> memory_gate 1000"
      by (simp add: memory_gate_def)
    show "contract_cache s_warm \<noteq> []"
      by (simp add: s_warm_def cache_of_def)
    show "batch_query env_fail 1 (collect_contracts (contract_cache s_warm)) 0 []
            [Usage, MemoryInfo]
          = ([], [Usage, MemoryInfo, Snapshots [Contract (stock 1 ''2330'')]])"
      unfolding c by (rule b)
    show "length ([] :: quote list) \<le> length [Market ''TSE'']"
      by simp
  qed
  then show ?thesis
    by simp
qed

section \<open>Cache population\<close>

lemma apply_writes_append: "apply_writes c (ws @ ws') = apply_writes (apply_writes c ws) ws'"
  by (simp add: apply_writes_def)

lemma apply_writes_Nil: "apply_writes c [] = c"
  by (simp add: apply_writes_def)

lemma map_of_apply_writes: "map_of (apply_writes c ws) = map_of c ++ map_of (rev ws)"
proof (induction ws arbitrary: c)
  case Nil
  show ?case by (simp add: apply_writes_def)
next
  case (Cons w ws)
  have "apply_writes c (w # ws) = apply_writes (AList.update (fst w) (snd w) c) ws"
    by (simp add: apply_writes_def)
  then have "map_of (apply_writes c (w # ws))
               = map_of (AList.update (fst w) (snd w) c) ++ map_of (rev ws)"
    by (simp add: Cons.IH)
  also have "\<dots> = map_of c ++ map_of (rev (w # ws))"
    by (rule ext) (simp add: map_add_def update_conv split: option.splits)
  finally show ?case .
qed

lemma cache_stock_writes: "cache_stock m c x = apply_writes c (stock_writes (m, x))"
  by (simp add: cache_stock_def stock_writes_def apply_writes_def Let_def split: option.splits)

lemma cache_other_writes: "cache_other p m c x = apply_writes c (other_writes p m x)"
  by (simp add: cache_other_def other_writes_def apply_writes_def Let_def split: option.splits)

lemma foldl_cache_stock:
  "foldl (cache_stock m) c xs = apply_writes c (concat (map stock_writes (map (Pair m) xs)))"
  by (induction xs arbitrary: c) (simp_all add: apply_writes_Nil cache_stock_writes apply_writes_append [symmetric])

lemma foldl_cache_other:
  "foldl (cache_other p m) c xs = apply_writes c (concat (map (other_writes p m) xs))"
  by (induction xs arbitrary: c) (simp_all add: apply_writes_Nil cache_other_writes apply_writes_append [symmetric])

lemma cache_venue_writes:
  "cache_venue c (m, v) = apply_writes c (concat (map stock_writes (venue_entries m v)))"
  by (simp add: cache_venue_def venue_entries_def foldl_cache_stock apply_writes_Nil split: option.splits)

lemma populate_writes: "populate dirs c = apply_writes c (all_writes dirs)"
  by (simp add: populate_def all_writes_def stock_entries_def Let_def cache_venue_writes
        foldl_cache_other apply_writes_append)

lemma last_write:
  assumes "(k, v) \<in> set ws" and "\<forall>v'. (k, v') \<in> set ws \<longrightarrow> v' = v"
  shows "map_of (rev ws) k = Some v"
proof (cases "map_of (rev ws) k")
  case None
  then have "k \<notin> fst ` set (rev ws)" by (simp add: map_of_eq_None_iff)
  with assms(1) show ?thesis by force
next
  case (Some v')
  then have "(k, v') \<in> set ws" by (auto dest: map_of_SomeD)
  with assms(2) Some show ?thesis by simp
qed

lemma populate_lookup:
  assumes "(k, v) \<in> set (all_writes dirs)" and "\<forall>v'. (k, v') \<in> set (all_writes dirs) \<longrightarrow> v' = v"
  shows "map_of (populate dirs []) k = Some v"
  using last_write [OF assms] by (simp add: populate_writes map_of_apply_writes)

lemma in_all_writes:
  "(k, v) \<in> set (all_writes dirs) \<longleftrightarrow>
     (\<exists>mx \<in> set (stock_entries dirs). (k, v) \<in> set (stock_writes mx))
     \<or> (\<exists>x \<in> set (items (Futures dirs)). (k, v) \<in> set (other_writes ''futures_'' ''Futures'' x))
     \<or> (\<exists>x \<in> set (items (Options dirs)). (k, v) \<in> set (other_writes ''options_'' ''Options'' x))"
  by (auto simp: all_writes_def)

lemma in_stock_writes:
  "(k, v) \<in> set (stock_writes (m, x)) \<longleftrightarrow>
     (\<exists>cx. code x = Some cx \<and>
        ((k = ''stock_'' @ cx \<and> v = Contract x)
         \<or> (k = ''stock_'' @ cx @ ''_market'' \<and> v = Market m)
         \<or> (category x = Some ''Warrant'' \<and> k = ''warrant_'' @ cx \<and> v = Contract x)
         \<or> (category x = Some ''Warrant'' \<and> k = ''warrant_'' @ cx @ ''_market''
              \<and> v = Market (m @ ''_Warrant''))))"
  by (auto simp: stock_writes_def split: option.splits)

lemma in_other_writes:
  "(k, v) \<in> set (other_writes p m x) \<longleftrightarrow>
     (\<exists>cx. code x = Some cx \<and>
        ((k = p @ cx \<and> v = Contract x) \<or> (k = p @ cx @ ''_market'' \<and> v = Market m)))"
  by (auto simp: other_writes_def split: option.splits)



text \<open>
  C8, as amended. Let an instrument of the TSE directory have a code and the category
  Warrant; let every stock instrument of the session carrying that code be this instrument
  in TSE, and let no stock code be this code followed by \<open>_market\<close>, nor this code be
  another stock code followed by \<open>_market\<close>. Then the populated cache holds the instrument
  under \<open>stock_<code>\<close> with label \<open>TSE\<close> and under \<open>warrant_<code>\<close> with label
  \<open>TSE_Warrant\<close>.
\<close>

theorem warrant_alias:
  assumes tse: "TSE dirs = Some tse" "w \<in> set (items tse)"
    and w: "code w = Some cd" "category w = Some ''Warrant''"
    and uniq: "\<forall>(m, x) \<in> set (stock_entries dirs). code x = Some cd \<longrightarrow> m = ''TSE'' \<and> x = w"
    and suffix: "\<forall>(m, x) \<in> set (stock_entries dirs). \<forall>cx. code x = Some cx \<longrightarrow>
                   cx \<noteq> cd @ ''_market'' \<and> cd \<noteq> cx @ ''_market''"
  shows "map_of (populate dirs []) (''stock_'' @ cd) = Some (Contract w)
       \<and> map_of (populate dirs []) (''stock_'' @ cd @ ''_market'') = Some (Market ''TSE'')
       \<and> map_of (populate dirs []) (''warrant_'' @ cd) = Some (Contract w)
       \<and> map_of (populate dirs []) (''warrant_'' @ cd @ ''_market'') = Some (Market ''TSE_Warrant'')"
proof -
  let ?ws = "stock_writes (''TSE'', w)"
  have ws: "?ws = [(''stock_'' @ cd, Contract w), (''stock_'' @ cd @ ''_market'', Market ''TSE''),
                   (''warrant_'' @ cd, Contract w),
                   (''warrant_'' @ cd @ ''_market'', Market ''TSE_Warrant'')]"
    using w by (simp add: stock_writes_def)
  have ent: "(''TSE'', w) \<in> set (stock_entries dirs)"
    using tse by (simp add: stock_entries_def venue_entries_def)
  have wr: "(k, v) \<in> set (all_writes dirs)" if "(k, v) \<in> set ?ws" for k v
    using ent that unfolding in_all_writes by blast
  have same: "v' = v" if kv: "(k, v) \<in> set ?ws" and kv': "(k, v') \<in> set (all_writes dirs)" for k v v'
  proof -
    from kv' consider
        (stock) m x where "(m, x) \<in> set (stock_entries dirs)" "(k, v') \<in> set (stock_writes (m, x))"
      | (futures) x where "(k, v') \<in> set (other_writes ''futures_'' ''Futures'' x)"
      | (options) x where "(k, v') \<in> set (other_writes ''options_'' ''Options'' x)"
      unfolding in_all_writes by auto
    then show ?thesis
    proof cases
      case stock
      from stock(2) obtain cx where cx: "code x = Some cx" and
        k': "(k = ''stock_'' @ cx \<and> v' = Contract x)
           \<or> (k = ''stock_'' @ cx @ ''_market'' \<and> v' = Market m)
           \<or> (category x = Some ''Warrant'' \<and> k = ''warrant_'' @ cx \<and> v' = Contract x)
           \<or> (category x = Some ''Warrant'' \<and> k = ''warrant_'' @ cx @ ''_market''
                \<and> v' = Market (m @ ''_Warrant''))"
        unfolding in_stock_writes by blast
      from uniq stock(1) cx have u: "cx = cd \<Longrightarrow> m = ''TSE'' \<and> x = w"
        by auto
      from suffix stock(1) cx have s: "cx \<noteq> cd @ ''_market''" "cd \<noteq> cx @ ''_market''"
        by auto
      from kv have k: "(k = ''stock_'' @ cd \<and> v = Contract w)
           \<or> (k = ''stock_'' @ cd @ ''_market'' \<and> v = Market ''TSE'')
           \<or> (k = ''warrant_'' @ cd \<and> v = Contract w)
           \<or> (k = ''warrant_'' @ cd @ ''_market'' \<and> v = Market ''TSE_Warrant'')"
        unfolding ws by auto
      from k k' u s show ?thesis
        by (elim disjE conjE) auto
    next
      case futures
      with kv show ?thesis unfolding ws in_other_writes by auto
    next
      case options
      with kv show ?thesis unfolding ws in_other_writes by auto
    qed
  qed
  have look: "map_of (populate dirs []) k = Some v" if "(k, v) \<in> set ?ws" for k v
    using that wr same by (intro populate_lookup) blast+
  show ?thesis
    by (intro conjI look) (simp_all add: ws)
qed

theorem warrant_alias_witness:
  "TSE dirs_warrant = Some (dir_of [warrant 1 ''030001'', stock 2 ''2330''])
   \<and> category (warrant 1 ''030001'') = Some ''Warrant''
   \<and> map_of (populate dirs_warrant []) ''stock_030001'' = Some (Contract (warrant 1 ''030001''))
   \<and> map_of (populate dirs_warrant []) ''stock_030001_market'' = Some (Market ''TSE'')
   \<and> map_of (populate dirs_warrant []) ''warrant_030001'' = Some (Contract (warrant 1 ''030001''))
   \<and> map_of (populate dirs_warrant []) ''warrant_030001_market'' = Some (Market ''TSE_Warrant'')"
proof -
  let ?w = "warrant 1 ''030001''"
  let ?tse = "dir_of [?w, stock 2 ''2330'']"
  have 1: "TSE dirs_warrant = Some ?tse"
    by (simp add: dirs_warrant_def)
  have 2: "?w \<in> set (items ?tse)"
    by (simp add: dir_of_def)
  have 3: "code ?w = Some ''030001''" "category ?w = Some ''Warrant''"
    by (simp_all add: warrant_def)
  have es: "stock_entries dirs_warrant =
              [(''TSE'', ?w), (''TSE'', stock 2 ''2330''), (''OTC'', stock 3 ''6488'')]"
    by (simp add: stock_entries_def venue_entries_def dirs_warrant_def dir_of_def)
  have 4: "\<forall>(m, x) \<in> set (stock_entries dirs_warrant).
             code x = Some ''030001'' \<longrightarrow> m = ''TSE'' \<and> x = ?w"
    unfolding es by (simp add: stock_def warrant_def)
  have 5: "\<forall>(m, x) \<in> set (stock_entries dirs_warrant). \<forall>cx. code x = Some cx \<longrightarrow>
             cx \<noteq> ''030001'' @ ''_market'' \<and> ''030001'' \<noteq> cx @ ''_market''"
    unfolding es by (auto simp: stock_def warrant_def)
  show ?thesis
    using 1 3(2) warrant_alias [OF 1 2 3 4 5] by simp
qed

text \<open>
  The claim without the proviso fails: with the codes \<open>A\<close> (a warrant) and
  \<open>A_market\<close> in TSE, the key \<open>stock_A_market\<close> ends up holding the second
  instrument, not the label of the first.
\<close>

theorem warrant_alias_counterexample:
  "TSE dirs_collide = Some (dir_of [warrant 1 ''A'', stock 2 ''A_market''])
   \<and> map_of (populate dirs_collide []) ''stock_A_market'' = Some (Contract (stock 2 ''A_market''))
   \<and> map_of (populate dirs_collide []) ''stock_A_market'' \<noteq> Some (Market ''TSE'')"
  by (simp add: dirs_collide_def populate_def cache_venue_def cache_stock_def cache_other_def
        dir_of_def warrant_def stock_def)

section \<open>Label pairing after a skipped chunk\<close>

lemma entries401_no_market:
  "\<forall>(k, x, m) \<in> set entries401. \<not> endswith k ''_market''"
  using tse_entries_no_market [of 400]
  by (auto simp: entries401_def endswith_def)

lemma entries401_distinct: "distinct (map fst entries401)"
  using tse_entries_distinct [of 400]
  by (auto simp: entries401_def tse_entries_def)

lemma update_fresh: "k \<notin> fst ` set c \<Longrightarrow> AList.update k v c = c @ [(k, v)]"
  by (induction c) auto

lemma apply_writes_fresh:
  "distinct (map fst (c @ ws)) \<Longrightarrow> apply_writes c ws = c @ ws"
proof (induction ws arbitrary: c)
  case Nil
  show ?case by (simp add: apply_writes_def)
next
  case (Cons w ws)
  from Cons.prems have "fst w \<notin> fst ` set c"
    by auto
  then have "apply_writes c (w # ws) = apply_writes (c @ [w]) ws"
    by (simp add: apply_writes_def update_fresh)
  also have "\<dots> = (c @ [w]) @ ws"
    using Cons.prems by (intro Cons.IH) simp
  finally show ?case by simp
qed

lemma cache_of_Nil: "cache_of [] = []"
  by (simp add: cache_of_def)

lemma cache_of_Cons:
  "cache_of ((k, x, m) # es) = (k, Contract x) # (k @ ''_market'', Market m) # cache_of es"
  by (simp add: cache_of_def)

lemma keys_cache_of:
  "fst ` set (cache_of es) = fst ` set es \<union> (\<lambda>k. k @ ''_market'') ` fst ` set es"
proof (induction es)
  case Nil
  show ?case by (simp add: cache_of_Nil)
next
  case (Cons a es)
  obtain k x m where a: "a = (k, x, m)"
    by (cases a)
  show ?case
    unfolding a cache_of_Cons using Cons.IH by auto
qed

lemma distinct_cache_of:
  assumes "distinct (map fst es)"
    and "\<forall>(k, x, m) \<in> set es. \<not> endswith k ''_market''"
  shows "distinct (map fst (cache_of es))"
  using assms
proof (induction es)
  case Nil
  show ?case by (simp add: cache_of_def)
next
  case (Cons a es)
  obtain k x m where a: "a = (k, x, m)"
    by (cases a)
  have c: "cache_of (a # es) = (k, Contract x) # (k @ ''_market'', Market m) # cache_of es"
    by (simp add: cache_of_def a)
  have nm: "\<not> endswith k' ''_market''" if "k' \<in> fst ` set (a # es)" for k'
    using Cons.prems(2) that by auto
  have k: "k \<notin> fst ` set es"
    using Cons.prems(1) a by auto
  have 1: "k \<notin> fst ` set (cache_of es)"
    using k nm [of k] endswith_market by (auto simp: keys_cache_of a)
  have 2: "k @ ''_market'' \<notin> fst ` set (cache_of es)"
  proof
    assume "k @ ''_market'' \<in> fst ` set (cache_of es)"
    then consider "k @ ''_market'' \<in> fst ` set es"
      | k' where "k' \<in> fst ` set es" "k @ ''_market'' = k' @ ''_market''"
      by (auto simp: keys_cache_of)
    then show False
    proof cases
      case 1
      then have "\<not> endswith (k @ ''_market'') ''_market''"
        by (intro nm) simp
      then show False by (simp add: endswith_market)
    next
      case 2
      with k show False by simp
    qed
  qed
  have "distinct (map fst (cache_of es))"
    using Cons.prems by (intro Cons.IH) auto
  with 1 2 show ?case
    by (simp add: c)
qed

lemma all_writes_401: "all_writes dirs401 = cache_of entries401"
  by (simp add: all_writes_def stock_entries_def venue_entries_def dirs401_def dir_of_def
        entries401_def tse_entries_def cache_of_def stock_writes_def other_writes_def
        stock_def comp_def)

lemma populate_401: "populate dirs401 [] = cache_of entries401"
proof -
  have "distinct (map fst ([] @ cache_of entries401))"
    using distinct_cache_of [OF entries401_distinct entries401_no_market] by simp
  then have "apply_writes [] (cache_of entries401) = [] @ cache_of entries401"
    by (rule apply_writes_fresh)
  then show ?thesis
    by (simp add: populate_writes all_writes_401)
qed

lemma fetch_all_populating:
  assumes "api s = Some h" and "usage e h = Inr u" and "traffic_gate e u = Inr False"
    and "memory_info e = Inr rss" and "\<not> memory_gate rss"
    and "contract_cache s = []" and "Contracts e h = Inr dirs"
    and "collect_markets (populate dirs []) = Inr markets"
    and "batch_query e h (collect_contracts (populate dirs [])) 0 []
           [Usage, MemoryInfo, Access DirTSE, Access DirOTC, Access DirOES, Access DirFutures,
            Access DirOptions]
           = (quotes, tr)"
    and "length quotes \<le> length markets"
  shows "fetch_all e s =
           (resp 200 (QuotesFetched
              (map (\<lambda>(j, q). record_of (markets ! j) q) (enumerate 0 quotes))),
            s\<lparr>contract_cache := populate dirs []\<rparr>, tr)"
  using assms
  by (simp add: fetch_all_def fetch_all_try_def population_def format_quotes_ok)


text \<open>
  C1. The claim asks that each record carries the label of the instrument that produced
  its quote, also when a chunk was skipped. The source does not do that. On a fresh
  session whose directories hold 400 TSE stocks and one futures contract, with the second
  snapshot call raising: the request populates the cache, the quote of the futures
  contract, the only instrument of the third chunk, becomes record number 200 and is given
  \<open>markets[200]\<close>, the label \<open>TSE\<close> of a stock of the skipped chunk, while the label
  the cache holds for it is \<open>Futures\<close>.
\<close>

theorem fetch_all_label_shift:
  "statusCode (fst (fetch_all env401 s_cold)) = 200
   \<and> length (quotes_of (body (fst (fetch_all env401 s_cold)))) = 201
   \<and> r_code (last (quotes_of (body (fst (fetch_all env401 s_cold))))) = ''TXF''
   \<and> r_market (last (quotes_of (body (fst (fetch_all env401 s_cold))))) = Market ''TSE''
   \<and> map_of (contract_cache (fst (snd (fetch_all env401 s_cold)))) (''futures_TXF'' @ ''_market'')
       = Some (Market ''Futures'')"
proof -
  let ?c = "populate dirs401 []"
  let ?cs = "collect_contracts ?c"
  let ?ms = "replicate 400 (Market ''TSE'') @ [Market ''Futures'']"
  let ?q1 = "map quote_of (take 200 ?cs)"
  let ?q = "quote_of (Contract (stock 400 ''TXF''))"
  let ?tr = "[Usage, MemoryInfo, Access DirTSE, Access DirOTC, Access DirOES, Access DirFutures,
              Access DirOptions]
             @ [Snapshots (take 200 ?cs), Sleep 1,
                Snapshots (take 200 (drop 200 ?cs)), Snapshots (take 200 (drop 400 ?cs)), Sleep 1]"
  let ?result = "map (\<lambda>(j, q). record_of (?ms ! j) q) (enumerate 0 (?q1 @ [?q]))"
  have cs: "?cs = map (\<lambda>i. Contract (stock i (unary_code i))) [0..<400]
                   @ [Contract (stock 400 ''TXF'')]"
    using collect_contracts_cache_of [OF entries401_no_market]
    by (simp add: populate_401 entries401_def tse_entries_def comp_def)
  have ms: "collect_markets ?c = Inr ?ms"
    using collect_markets_cache_of [OF entries401_distinct entries401_no_market]
    by (simp add: populate_401 entries401_def tse_entries_def comp_def map_replicate_const)
  have len: "length ?cs = 401"
    by (simp add: cs)
  have third: "take 200 (drop 400 ?cs) = [Contract (stock 400 ''TXF'')]"
    by (simp add: cs)
  have bq: "batch_query env401 1 ?cs 0 []
              [Usage, MemoryInfo, Access DirTSE, Access DirOTC, Access DirOES, Access DirFutures,
               Access DirOptions]
            = (?q1 @ [?q], ?tr)"
    by (rule batch_query_three [where x = "OtherError ''timeout''"])
       (simp_all add: len third env401_def env_skip_def)
  have fa: "fetch_all env401 s_cold =
              (resp 200 (QuotesFetched ?result), s_cold\<lparr>contract_cache := ?c\<rparr>, ?tr)"
  proof (rule fetch_all_populating [OF _ _ _ _ _ _ _ ms bq])
    show "api s_cold = Some 1"
      by (simp add: s_cold_def)
    show "usage env401 1 = Inr \<lparr>bytes = 10, limit_bytes = 100\<rparr>"
      by (simp add: env401_def env_skip_def env0_def)
    show "traffic_gate env401 \<lparr>bytes = 10, limit_bytes = 100\<rparr> = Inr False"
      by (simp add: traffic_gate_def env401_def env_skip_def env0_def)
    show "memory_info env401 = Inr 1000"
      by (simp add: env401_def env_skip_def env0_def)
    show "\<not> memory_gate 1000"
      by (simp add: memory_gate_def)
    show "contract_cache s_cold = []"
      by (simp add: s_cold_def)
    show "Contracts env401 1 = Inr dirs401"
      by (simp add: env401_def)
    show "length (?q1 @ [?q]) \<le> length ?ms"
      by (simp add: len)
  qed
  have l1: "length ?q1 = 200"
    by (simp add: len)
  have res: "?result = map (\<lambda>(j, q). record_of (?ms ! j) q) (enumerate 0 ?q1)
                        @ [record_of (?ms ! 200) ?q]"
    unfolding enumerate_append_eq l1 by simp
  have lab: "?ms ! 200 = Market ''TSE''"
    by (simp add: nth_append)
  have q: "quotes_of (body (fst (fetch_all env401 s_cold))) = ?result"
    by (simp add: fa resp_def quotes_of_def)
  have 1: "statusCode (fst (fetch_all env401 s_cold)) = 200"
    by (simp add: fa resp_def)
  have 2: "length (quotes_of (body (fst (fetch_all env401 s_cold)))) = 201"
    unfolding q by (simp add: len)
  have 3: "last (quotes_of (body (fst (fetch_all env401 s_cold)))) = record_of (Market ''TSE'') ?q"
    unfolding q res lab by simp
  have "map_of (cache_of entries401) (''futures_TXF'' @ ''_market'') = Some (Market ''Futures'')"
    by (rule map_of_cache_of [OF entries401_distinct entries401_no_market,
               where x = "stock 400 ''TXF''"])
       (simp add: entries401_def)
  then have 4: "map_of (contract_cache (fst (snd (fetch_all env401 s_cold))))
                  (''futures_TXF'' @ ''_market'') = Some (Market ''Futures'')"
    by (simp add: fa populate_401)
  from 1 2 3 4 show ?thesis
    by (simp add: record_of_def quote_of_def stock_def)
qed

section \<open>Login\<close>

text \<open>
  C2, as amended. A body that is a non-empty JSON object, carries none of \<open>api_key\<close>,
  \<open>secret_key\<close>, \<open>ca_password\<close>, \<open>person_id\<close> (absent or falsy) and has
  \<open>simulation_mode\<close> absent or falsy is answered with 400 and the message
  \<open>Missing parameters: api_key, secret_key, ca_password, person_id\<close>, in that order, and
  the globals are untouched. (The body \<open>{}\<close> itself does not get that far.)
\<close>

theorem login_missing_all:
  assumes "d \<noteq> []"
    and "\<not> truthy (dict_get d ''api_key'' JNull)"
    and "\<not> truthy (dict_get d ''secret_key'' JNull)"
    and "\<not> truthy (dict_get d ''ca_password'' JNull)"
    and "\<not> truthy (dict_get d ''person_id'' JNull)"
    and "\<not> truthy (dict_get d ''simulation_mode'' (JBool False))"
  shows "login e (Inr (JObj d)) s =
           (resp 400 (Error ''Missing parameters: api_key, secret_key, ca_password, person_id''), s)"
  using assms by (simp add: login_def login_try_def missing_params_def Let_def)

theorem login_missing_all_witness:
  "[(''ca_path'', JStr ''/app/other.pfx'')] \<noteq> []
   \<and> \<not> truthy (dict_get [(''ca_path'', JStr ''/app/other.pfx'')] ''api_key'' JNull)
   \<and> \<not> truthy (dict_get [(''ca_path'', JStr ''/app/other.pfx'')] ''simulation_mode'' (JBool False))
   \<and> login env0 (Inr (JObj [(''ca_path'', JStr ''/app/other.pfx'')])) s_none =
       (resp 400 (Error ''Missing parameters: api_key, secret_key, ca_password, person_id''),
        s_none)"
  using login_missing_all [of "[(''ca_path'', JStr ''/app/other.pfx'')]" env0 s_none]
  by (simp add: dict_get_def)

text \<open>
  The body \<open>{}\<close> is falsy, so \<open>if not data\<close> answers it: 400 with
  \<open>Request body is empty\<close>, and no parameter is named.
\<close>

theorem login_empty_object_counterexample:
  "login env0 (Inr (JObj [])) s_none = (resp 400 (Error ''Request body is empty''), s_none)
   \<and> body (fst (login env0 (Inr (JObj [])) s_none))
       \<noteq> Error ''Missing parameters: api_key, secret_key, ca_password, person_id''"
  by (simp add: login_def login_try_def resp_def)

lemma answer_initialized: "answer e h cd qtype found \<noteq> Inr not_initialized"
  by (simp add: answer_def not_initialized_def resp_def
           split: option.splits prod.splits sum.splits list.splits)

lemma quote_try_initialized:
  assumes "api s = Some h"
  shows "quote_try e s (Some (c # cs)) ty \<noteq> Inr not_initialized"
proof -
  have u: "resp 400 (Error m) \<noteq> not_initialized" for m
    by (simp add: not_initialized_def resp_def)
  show ?thesis
    using assms
    by (simp add: quote_try_def Let_def answer_initialized u
             split: option.splits prod.splits sum.splits)
qed

lemma quote_initialized:
  assumes "api s = Some h"
  shows "quote e s (Some (c # cs)) ty \<noteq> not_initialized"
proof (cases "quote_try e s (Some (c # cs)) ty")
  case (Inl x)
  then show ?thesis
    by (simp add: quote_def not_initialized_def resp_def)
next
  case (Inr r)
  with quote_try_initialized [OF assms, of e c cs ty] show ?thesis
    by (simp add: quote_def)
qed

lemma fetch_all_try_initialized:
  assumes "api s = Some h"
  shows "fst (fetch_all_try e s) \<noteq> Inr not_initialized"
  using assms
  by (simp add: fetch_all_try_def Let_def not_initialized_def resp_def
           split: option.splits prod.splits sum.splits bool.splits)

lemma fetch_all_initialized:
  assumes "api s = Some h"
  shows "fst (fetch_all e s) \<noteq> not_initialized"
proof (cases "fetch_all_try e s")
  case (fields r c tr)
  show ?thesis
  proof (cases r)
    case (Inl x)
    with fields show ?thesis
      by (simp add: fetch_all_def not_initialized_def resp_def)
  next
    case (Inr r')
    with fields fetch_all_try_initialized [OF assms, of e] show ?thesis
      by (simp add: fetch_all_def)
  qed
qed

text \<open>
  C7. A login whose body passes validation and whose session constructor returns an
  instance leaves the global \<open>api\<close> bound to that instance, whatever happens afterwards
  (activation refused, login or contract download raising: the 500 answers), and nothing
  else of the globals is changed. In that state neither \<open>/fetch_all\<close> nor \<open>/quote\<close>
  answers that the session is not initialised, whatever the collaborators then answer.
\<close>

theorem login_replaces_session:
  assumes "d \<noteq> []"
    and "missing_params (dict_get d ''api_key'' JNull) (dict_get d ''secret_key'' JNull)
           (dict_get d ''simulation_mode'' (JBool False)) (dict_get d ''ca_password'' JNull)
           (dict_get d ''person_id'' JNull) = []"
    and "truthy (dict_get d ''simulation_mode'' (JBool False))
         \<or> path_exists e (dict_get d ''ca_path'' (JStr ''/app/Sinopac.pfx'')) = Inr True"
    and "Shioaji e (dict_get d ''simulation_mode'' (JBool False)) = Inr h"
  shows "snd (login e (Inr (JObj d)) s) = s\<lparr>api := Some h\<rparr>
       \<and> fst (fetch_all e' (snd (login e (Inr (JObj d)) s))) \<noteq> not_initialized
       \<and> quote e' (snd (login e (Inr (JObj d)) s)) (Some (c # cs)) ty \<noteq> not_initialized"
proof -
  have init: "snd (initialize e s k1 k2 p pw pid (dict_get d ''simulation_mode'' (JBool False)))
                = s\<lparr>api := Some h\<rparr>" for k1 k2 p pw pid
    using assms(4)
    by (simp add: initialize_def Let_def split: sum.splits bool.splits)
  have lt: "login_try e (Inr (JObj d)) s =
              initialize e s (dict_get d ''api_key'' JNull) (dict_get d ''secret_key'' JNull)
                (dict_get d ''ca_path'' (JStr ''/app/Sinopac.pfx''))
                (dict_get d ''ca_password'' JNull) (dict_get d ''person_id'' JNull)
                (dict_get d ''simulation_mode'' (JBool False))"
    using assms(1,2,3) by (auto simp: login_try_def Let_def)
  have "snd (login e (Inr (JObj d)) s) = snd (login_try e (Inr (JObj d)) s)"
    by (simp add: login_def split: prod.splits sum.splits)
  with lt init have st: "snd (login e (Inr (JObj d)) s) = s\<lparr>api := Some h\<rparr>"
    by simp
  have f: "fst (fetch_all e' (s\<lparr>api := Some h\<rparr>)) \<noteq> not_initialized"
    by (rule fetch_all_initialized) simp
  have q: "quote e' (s\<lparr>api := Some h\<rparr>) (Some (c # cs)) ty \<noteq> not_initialized"
    by (rule quote_initialized) simp
  from st f q show ?thesis by simp
qed

theorem login_replaces_session_witness:
  "credentials \<noteq> []
   \<and> Shioaji env_refuse (dict_get credentials ''simulation_mode'' (JBool False)) = Inr 2
   \<and> api s_warm = Some 1
   \<and> statusCode (fst (login env_refuse (Inr (JObj credentials)) s_warm)) = 500
   \<and> snd (login env_refuse (Inr (JObj credentials)) s_warm) = s_warm\<lparr>api := Some 2\<rparr>
   \<and> fst (fetch_all env0 (snd (login env_refuse (Inr (JObj credentials)) s_warm)))
       \<noteq> not_initialized
   \<and> quote env0 (snd (login env_refuse (Inr (JObj credentials)) s_warm)) (Some ''2330'') None
       \<noteq> not_initialized"
proof -
  have 1: "credentials \<noteq> []"
    by (simp add: credentials_def)
  have 2: "missing_params (dict_get credentials ''api_key'' JNull)
             (dict_get credentials ''secret_key'' JNull)
             (dict_get credentials ''simulation_mode'' (JBool False))
             (dict_get credentials ''ca_password'' JNull)
             (dict_get credentials ''person_id'' JNull) = []"
    by (simp add: credentials_def dict_get_def missing_params_def)
  have 3: "truthy (dict_get credentials ''simulation_mode'' (JBool False))
           \<or> path_exists env_refuse (dict_get credentials ''ca_path'' (JStr ''/app/Sinopac.pfx''))
               = Inr True"
    by (simp add: env_refuse_def env0_def)
  have 4: "Shioaji env_refuse (dict_get credentials ''simulation_mode'' (JBool False)) = Inr 2"
    by (simp add: env_refuse_def env0_def)
  have 5: "statusCode (fst (login env_refuse (Inr (JObj credentials)) s_warm)) = 500"
    by (simp add: login_def login_try_def initialize_def credentials_def dict_get_def
          missing_params_def env_refuse_def env0_def resp_def)
  have 6: "api s_warm = Some 1"
    by (simp add: s_warm_def)
  note w = login_replaces_session [OF 1 2 3 4, of s_warm env0 "CHR ''2''" "''330''" None]
  from 1 4 5 6 w show ?thesis
    by blast
qed

section \<open>Single quote\<close>

text \<open>
  C9. A stock request (\<open>type\<close> absent or \<open>stock\<close>) for a code that TSE does not have
  and OTC has is resolved to the OTC instrument, whatever OES holds, and the answer carries
  the market \<open>OTC\<close>, or \<open>OTC_Warrant\<close> when that instrument's category is Warrant.
\<close>

theorem quote_stock_otc:
  assumes "api s = Some h" and "cd \<noteq> []"
    and "type_arg = None \<or> type_arg = Some ''stock''"
    and "Contracts e h = Inr dirs"
    and "absent (TSE dirs) cd"
    and "OTC dirs = Some otc" and "getitem otc cd = Inr contract"
    and "snapshots e h 0 [Contract contract] = Inr (q # qs)"
    and "close q = Some p" and "ts q = Some t"
  shows "quote e s (Some cd) type_arg =
           resp 200 (QuoteFetched (q_code q) p t
                       (if category contract = Some ''Warrant'' then ''OTC_Warrant'' else ''OTC'')
                       ''stock'')"
proof -
  have "probe cd [(''TSE'', TSE dirs), (''OTC'', OTC dirs), (''OES'', OES dirs)]
          = Inr (Some (contract, ''OTC''))"
    using assms(5,6,7)
    by (cases "TSE dirs") (auto simp: absent_def split: sum.splits exn.splits)
  with assms show ?thesis
    by (auto simp: quote_def quote_try_def answer_def)
qed

theorem quote_stock_otc_witness:
  "api s_warm = Some 1
   \<and> absent (TSE dirs0) ''6488''
   \<and> quote env0 s_warm (Some ''6488'') None = resp 200 (QuoteFetched ''6488'' 1 0 ''OTC'' ''stock'')"
proof -
  have a: "api s_warm = Some 1"
    by (simp add: s_warm_def)
  have c: "Contracts env0 1 = Inr dirs0"
    by (simp add: env0_def)
  have t: "absent (TSE dirs0) ''6488''"
    by (simp add: absent_def dirs0_def dir_of_def stock_def)
  have o: "OTC dirs0 = Some (dir_of [stock 2 ''6488''])"
    by (simp add: dirs0_def)
  have g: "getitem (dir_of [stock 2 ''6488'']) ''6488'' = Inr (stock 2 ''6488'')"
    by (simp add: dir_of_def stock_def)
  have q: "snapshots env0 1 0 [Contract (stock 2 ''6488'')] = Inr (quote_of (Contract (stock 2 ''6488'')) # [])"
    by (simp add: env0_def)
  have p: "close (quote_of (Contract (stock 2 ''6488''))) = Some 1"
      "ts (quote_of (Contract (stock 2 ''6488''))) = Some 0"
    by (simp_all add: quote_of_def)
  have n: "''6488'' \<noteq> []" "None = None \<or> None = Some ''stock''"
    by simp_all
  show ?thesis
    using a t quote_stock_otc [OF a n c t o g q p]
    by (simp add: quote_of_def stock_def)
qed

text \<open>
  C10. With a code supplied and a session initialised, a lookup miss is answered with 500,
  not 404: for a stock request when no probed venue has the code, and for a futures or
  options request when the directory lookup raises \<open>KeyError\<close>.
\<close>

theorem quote_lookup_miss:
  assumes "api s = Some h" and "cd \<noteq> []"
    and "Contracts e h = Inr dirs"
    and "((type_arg = None \<or> type_arg = Some ''stock'')
            \<and> absent (TSE dirs) cd \<and> absent (OTC dirs) cd \<and> absent (OES dirs) cd)
         \<or> (type_arg = Some ''futures'' \<and> getitem (Futures dirs) cd = Inl (KeyError k))
         \<or> (type_arg = Some ''options'' \<and> getitem (Options dirs) cd = Inl (KeyError k))"
  shows "statusCode (quote e s (Some cd) type_arg) = 500
       \<and> statusCode (quote e s (Some cd) type_arg) \<noteq> 404"
proof -
  have p: "probe cd [(''TSE'', TSE dirs), (''OTC'', OTC dirs), (''OES'', OES dirs)] = Inr None"
    if "absent (TSE dirs) cd" "absent (OTC dirs) cd" "absent (OES dirs) cd"
    using that
    by (cases "TSE dirs"; cases "OTC dirs"; cases "OES dirs")
       (auto simp: absent_def split: sum.splits exn.splits)
  from assms(4) have "statusCode (quote e s (Some cd) type_arg) = 500"
  proof (elim disjE conjE)
    assume "type_arg = None" "absent (TSE dirs) cd" "absent (OTC dirs) cd" "absent (OES dirs) cd"
    with assms(1,2,3) p show ?thesis
      by (simp add: quote_def quote_try_def answer_def resp_def)
  next
    assume "type_arg = Some ''stock''" "absent (TSE dirs) cd" "absent (OTC dirs) cd"
      "absent (OES dirs) cd"
    with assms(1,2,3) p show ?thesis
      by (simp add: quote_def quote_try_def answer_def resp_def)
  next
    assume "type_arg = Some ''futures''" "getitem (Futures dirs) cd = Inl (KeyError k)"
    with assms(1,2,3) show ?thesis
      by (simp add: quote_def quote_try_def resp_def)
  next
    assume "type_arg = Some ''options''" "getitem (Options dirs) cd = Inl (KeyError k)"
    with assms(1,2,3) show ?thesis
      by (simp add: quote_def quote_try_def resp_def)
  qed
  then show ?thesis by simp
qed

theorem quote_lookup_miss_witness:
  "api s_warm = Some 1
   \<and> absent (TSE dirs0) ''9999'' \<and> absent (OTC dirs0) ''9999'' \<and> absent (OES dirs0) ''9999''
   \<and> statusCode (quote env0 s_warm (Some ''9999'') None) = 500"
proof -
  have a: "api s_warm = Some 1"
    by (simp add: s_warm_def)
  have c: "Contracts env0 1 = Inr dirs0"
    by (simp add: env0_def)
  have t: "absent (TSE dirs0) ''9999''" "absent (OTC dirs0) ''9999''" "absent (OES dirs0) ''9999''"
    by (simp_all add: absent_def dirs0_def dir_of_def stock_def)
  have m: "((None = None \<or> None = Some ''stock'')
            \<and> absent (TSE dirs0) ''9999'' \<and> absent (OTC dirs0) ''9999'' \<and> absent (OES dirs0) ''9999'')
         \<or> (None = Some ''futures'' \<and> getitem (Futures dirs0) ''9999'' = Inl (KeyError []))
         \<or> (None = Some ''options'' \<and> getitem (Options dirs0) ''9999'' = Inl (KeyError []))"
    using t by simp
  have n: "''9999'' \<noteq> []"
    by simp
  show ?thesis
    using a t quote_lookup_miss [OF a n c m] by simp
qed

end
